theory Spec2Isabelle
  imports Main "HOL-Library.Sublist" "HOL-Library.AList"
begin

section \<open>Data model of the equipment-list expansion engine\<close>

text \<open>
  Primary keys are opaque identifiers. A database table is the list of its rows in the
  order in which the model's default manager yields them (the \<open>Meta.ordering\<close> of the
  model), so that a query is a \<open>filter\<close> of that list.
\<close>

type_synonym ident = nat

datatype error = AttributeError | ValueError | ValidationError

text \<open>\<open>ContentAttributeValue\<close>: a value and the attribute it is a value of.\<close>

record ContentAttributeValue =
  av_id :: ident
  av_attribute :: ident

text \<open>
  \<open>ListAttributeAssignment\<close>: the through-row between a list and an attribute value,
  with its \<open>archived\<close> flag.
\<close>

record ListAttributeAssignment =
  attribute_value :: ContentAttributeValue
  archived :: bool

text \<open>\<open>List\<close>: the gang, with its house and its attribute assignments.\<close>

record ListRow =
  content_house :: ident
  assignments :: "ListAttributeAssignment list"

text \<open>
  \<open>ListFighter\<close>: \<open>get_category\<close> is the value the method of that name returns
  (\<open>None\<close> for Python's \<open>None\<close>); the two content fighters are the fighter's own
  and its optional legacy.
\<close>

record ListFighter =
  content_fighter :: ident
  legacy_content_fighter :: "ident option"
  get_category :: "string option"

text \<open>\<open>ExpansionRuleInputs\<close>: both fields default to \<open>None\<close> in the dataclass.\<close>

record ExpansionRuleInputs =
  inp_list :: "ListRow option"
  inp_fighter :: "ListFighter option"

text \<open>
  The three concrete subclasses of \<open>ContentEquipmentListExpansionRule\<close>. A rule by
  attribute holds the ids of its \<open>attribute_values\<close> (the rows of the many-to-many
  table), a rule by fighter category the list a \<open>MultiSelectField\<close> holds.
\<close>

datatype rule_kind =
    ByAttribute ident "ident list"
  | ByHouse ident
  | ByFighterCategory "string list"

record ContentEquipmentListExpansionRule =
  rule_id :: ident
  rule_kind :: rule_kind

record ContentEquipmentListExpansion =
  exp_id :: ident
  exp_name :: string
  exp_rules :: "ident list"

record ContentWeaponProfile =
  wp_id :: ident
  wp_equipment :: ident

record ContentEquipmentListExpansionItem =
  item_expansion :: ident
  item_equipment :: ident
  item_weapon_profile :: "ContentWeaponProfile option"
  item_cost :: "int option"

record ContentEquipment =
  eq_id :: ident
  cost_cast_int :: int

record Content_db =
  rule_objects :: "ContentEquipmentListExpansionRule list"
  expansion_objects :: "ContentEquipmentListExpansion list"
  item_objects :: "ContentEquipmentListExpansionItem list"
  equipment_objects :: "ContentEquipment list"

section \<open>Rule matching\<close>

text \<open>
  \<open>list_obj.attributes.filter(attribute=self.attribute,
  listattributeassignment__archived=False)\<close>: the values of the list for one attribute
  whose assignment is not archived.
\<close>

definition list_values :: "ListRow \<Rightarrow> ident \<Rightarrow> ContentAttributeValue list" where
  "list_values l a =
     map attribute_value
       (filter (\<lambda>x. av_attribute (attribute_value x) = a \<and> \<not> archived x) (assignments l))"

text \<open>
  The three \<open>match\<close> methods. Reading a field of an absent list raises
  \<open>AttributeError\<close>; the rule by fighter category returns \<open>False\<close> for an absent
  fighter and for a falsy category (\<open>None\<close> or the empty string).
\<close>

fun match :: "rule_kind \<Rightarrow> ExpansionRuleInputs \<Rightarrow> error + bool" where
  "match (ByAttribute a vals) inp =
     (case inp_list inp of
        None \<Rightarrow> Inl AttributeError
      | Some l \<Rightarrow>
          (if list_values l a = [] then Inr False
           else if vals = [] then Inr True
           else Inr (list_ex (\<lambda>v. av_id v \<in> set vals) (list_values l a))))"
| "match (ByHouse h) inp =
     (case inp_list inp of
        None \<Rightarrow> Inl AttributeError
      | Some l \<Rightarrow> Inr (content_house l = h))"
| "match (ByFighterCategory cats) inp =
     (case inp_fighter inp of
        None \<Rightarrow> Inr False
      | Some f \<Rightarrow>
          (case get_category f of
             None \<Rightarrow> Inr False
           | Some c \<Rightarrow> if c = [] then Inr False else Inr (c \<in> set cats)))"

section \<open>Expansions\<close>

text \<open>
  \<open>self.rules.all()\<close>: the join of the expansion's many-to-many rows with the rule
  table.
\<close>

definition rules_all ::
  "Content_db \<Rightarrow> ContentEquipmentListExpansion \<Rightarrow> ContentEquipmentListExpansionRule list" where
  "rules_all db e = filter (\<lambda>r. rule_id r \<in> set (exp_rules e)) (rule_objects db)"

text \<open>
  The loop of \<open>applies_to\<close>: it returns \<open>False\<close> at the first rule that does not
  match, passes on what a \<open>match\<close> raises, and returns \<open>True\<close> when the loop ends.
\<close>

fun applies_to_loop ::
  "ContentEquipmentListExpansionRule list \<Rightarrow> ExpansionRuleInputs \<Rightarrow> error + bool" where
  "applies_to_loop [] inp = Inr True"
| "applies_to_loop (r # rs) inp =
     (case match (rule_kind r) inp of
        Inl err \<Rightarrow> Inl err
      | Inr b \<Rightarrow> if \<not> b then Inr False else applies_to_loop rs inp)"

definition applies_to ::
  "Content_db \<Rightarrow> ContentEquipmentListExpansion \<Rightarrow> ExpansionRuleInputs \<Rightarrow> error + bool" where
  "applies_to db e inp = applies_to_loop (rules_all db e) inp"

text \<open>
  Modelled from the spec: \<open>List.active_attributes_cached\<close> is not part of the sources
  at hand; the spec calls it the mapping of the currently active attribute-value
  assignments of the list.
\<close>

definition active_attributes_cached :: "ListRow \<Rightarrow> ListAttributeAssignment list" where
  "active_attributes_cached l = filter (\<lambda>x. \<not> archived x) (assignments l)"

text \<open>
  The query \<open>list_rules\<close> of \<open>get_applicable_expansions\<close>: rules by attribute one of
  whose \<open>attribute_values\<close> is an active value of the list, or rules by house for the
  list's house.
\<close>

fun list_rules :: "ListRow \<Rightarrow> rule_kind \<Rightarrow> bool" where
  "list_rules l (ByAttribute a vals) =
     list_ex (\<lambda>v. v \<in> set (map (\<lambda>aa. av_id (attribute_value aa)) (active_attributes_cached l)))
       vals"
| "list_rules l (ByHouse h) = (h = content_house l)"
| "list_rules l (ByFighterCategory cats) = False"

text \<open>
  A \<open>MultiSelectField\<close> is stored as the text of its choices joined by commas, and the
  lookup \<open>fighter_categories__contains\<close> is a substring test on that text.
\<close>

fun join_commas :: "string list \<Rightarrow> string" where
  "join_commas [] = []"
| "join_commas [x] = x"
| "join_commas (x # y # ys) = x @ '','' @ join_commas (y # ys)"

fun fighter_rules :: "string \<Rightarrow> rule_kind \<Rightarrow> bool" where
  "fighter_rules c (ByFighterCategory cats) = sublist c (join_commas cats)"
| "fighter_rules c (ByAttribute a vals) = False"
| "fighter_rules c (ByHouse h) = False"

text \<open>
  The second phase: with \<open>applicable_rules\<close> the rules the query selected, keep the
  expansions whose count of distinct rules among them (\<open>matched\<close>) equals their count
  of distinct rules (\<open>total\<close>), and drop those with no rule.
\<close>

definition matched ::
  "Content_db \<Rightarrow> ContentEquipmentListExpansionRule list \<Rightarrow> ContentEquipmentListExpansion \<Rightarrow> nat"
  where
  "matched db applicable_rules e =
     length (remdups (map rule_id
       (filter (\<lambda>r. rule_id r \<in> set (map rule_id applicable_rules)) (rules_all db e))))"

definition total :: "Content_db \<Rightarrow> ContentEquipmentListExpansion \<Rightarrow> nat" where
  "total db e = length (remdups (map rule_id (rules_all db e)))"

definition applicable_expansions ::
  "Content_db \<Rightarrow> (rule_kind \<Rightarrow> bool) \<Rightarrow> ContentEquipmentListExpansion list" where
  "applicable_expansions db q =
     (let applicable_rules = filter (\<lambda>r. q (rule_kind r)) (rule_objects db)
      in filter (\<lambda>e. matched db applicable_rules e = total db e \<and> total db e \<noteq> 0)
           (expansion_objects db))"

text \<open>
  \<open>get_applicable_expansions\<close>. Reading \<open>active_attributes_cached\<close> of an absent
  list raises \<open>AttributeError\<close>; with a fighter whose category is \<open>None\<close> the
  \<open>contains\<close> lookup is refused with \<open>ValueError\<close> when the filter is built.
\<close>

definition get_applicable_expansions ::
  "Content_db \<Rightarrow> ExpansionRuleInputs \<Rightarrow> error + ContentEquipmentListExpansion list" where
  "get_applicable_expansions db inp =
     (case inp_list inp of
        None \<Rightarrow> Inl AttributeError
      | Some l \<Rightarrow>
          (case inp_fighter inp of
             None \<Rightarrow> Inr (applicable_expansions db (list_rules l))
           | Some f \<Rightarrow>
               (case get_category f of
                  None \<Rightarrow> Inl ValueError
                | Some c \<Rightarrow>
                    Inr (applicable_expansions db (\<lambda>k. list_rules l k \<or> fighter_rules c k)))))"

text \<open>
  The naive reading of the same query: every expansion with at least one rule all of
  whose rules match.
\<close>

definition naive_applicable_expansions ::
  "Content_db \<Rightarrow> ExpansionRuleInputs \<Rightarrow> ContentEquipmentListExpansion list" where
  "naive_applicable_expansions db inp =
     filter (\<lambda>e. rules_all db e \<noteq> [] \<and> list_all (\<lambda>r. match (rule_kind r) inp = Inr True) (rules_all db e))
       (expansion_objects db)"

section \<open>Expansion items\<close>

definition weapon_profile_id :: "ContentEquipmentListExpansionItem \<Rightarrow> ident option" where
  "weapon_profile_id it = map_option wp_id (item_weapon_profile it)"

text \<open>
  \<open>get_applicable_expansion_items_for_equipment\<close>, with the extra keyword filters as
  a predicate on items. When no item has the pair it returns the empty queryset
  before \<open>get_applicable_expansions\<close> is called.
\<close>

definition get_applicable_expansion_items_for_equipment ::
  "Content_db \<Rightarrow> ExpansionRuleInputs \<Rightarrow> ident \<Rightarrow> ident option
     \<Rightarrow> (ContentEquipmentListExpansionItem \<Rightarrow> bool)
     \<Rightarrow> error + ContentEquipmentListExpansionItem list" where
  "get_applicable_expansion_items_for_equipment db inp equipment weapon_profile kwargs =
     (let exists_in_expansion =
            list_ex (\<lambda>it. item_equipment it = equipment \<and> weapon_profile_id it = weapon_profile)
              (item_objects db)
      in if \<not> exists_in_expansion then Inr []
         else
           (case get_applicable_expansions db inp of
              Inl err \<Rightarrow> Inl err
            | Inr exps \<Rightarrow>
                Inr (filter (\<lambda>it. item_equipment it = equipment
                                \<and> weapon_profile_id it = weapon_profile
                                \<and> item_expansion it \<in> set (map exp_id exps)
                                \<and> kwargs it)
                       (item_objects db))))"

text \<open>The same query without the early return.\<close>

definition items_for_equipment_unguarded ::
  "Content_db \<Rightarrow> ExpansionRuleInputs \<Rightarrow> ident \<Rightarrow> ident option
     \<Rightarrow> error + ContentEquipmentListExpansionItem list" where
  "items_for_equipment_unguarded db inp equipment weapon_profile =
     (case get_applicable_expansions db inp of
        Inl err \<Rightarrow> Inl err
      | Inr exps \<Rightarrow>
          Inr (filter (\<lambda>it. item_equipment it = equipment
                          \<and> weapon_profile_id it = weapon_profile
                          \<and> item_expansion it \<in> set (map exp_id exps))
                 (item_objects db)))"

text \<open>\<open>ContentEquipmentListExpansionItem.clean\<close>.\<close>

definition clean :: "ContentEquipmentListExpansionItem \<Rightarrow> error + unit" where
  "clean it =
     (case item_weapon_profile it of
        None \<Rightarrow> Inr ()
      | Some wp \<Rightarrow> if wp_equipment wp \<noteq> item_equipment it then Inl ValidationError else Inr ())"

section \<open>Equipment aggregation\<close>

text \<open>
  One entry of the dictionary \<open>equipment_data\<close>: the base cost and the costs by weapon
  profile. A Python dictionary is an association list: a new key goes to the end, an
  existing key keeps its place.
\<close>

record equipment_entry =
  entry_cost :: "int option"
  entry_profiles :: "(ident \<times> int option) list"

type_synonym equipment_data = "(ident \<times> equipment_entry) list"

text \<open>The body of the inner loop of \<open>get_expansion_equipment\<close> for one item.\<close>

definition add_item :: "ContentEquipmentListExpansionItem \<Rightarrow> equipment_data \<Rightarrow> equipment_data" where
  "add_item it equipment_data =
     (let data = (if map_of equipment_data (item_equipment it) = None
                  then AList.update (item_equipment it)
                         \<lparr>entry_cost = None, entry_profiles = []\<rparr> equipment_data
                  else equipment_data);
          entry = the (map_of data (item_equipment it))
      in case weapon_profile_id it of
           Some p \<Rightarrow>
             AList.update (item_equipment it)
               (entry\<lparr>entry_profiles := AList.update p (item_cost it) (entry_profiles entry)\<rparr>) data
         | None \<Rightarrow>
             AList.update (item_equipment it) (entry\<lparr>entry_cost := item_cost it\<rparr>) data)"

text \<open>\<open>expansion.items.all()\<close> and the items of a list of expansions in loop order.\<close>

definition items_all ::
  "Content_db \<Rightarrow> ContentEquipmentListExpansion \<Rightarrow> ContentEquipmentListExpansionItem list" where
  "items_all db e = filter (\<lambda>it. item_expansion it = exp_id e) (item_objects db)"

definition prefetched_expansions ::
  "Content_db \<Rightarrow> ContentEquipmentListExpansion list \<Rightarrow> ContentEquipmentListExpansion list" where
  "prefetched_expansions db expansions =
     filter (\<lambda>e. exp_id e \<in> set (map exp_id expansions)) (expansion_objects db)"

definition loop_items ::
  "Content_db \<Rightarrow> ContentEquipmentListExpansion list \<Rightarrow> ContentEquipmentListExpansionItem list" where
  "loop_items db expansions = concat (map (items_all db) (prefetched_expansions db expansions))"

definition cost_overrides :: "equipment_data \<Rightarrow> (ident \<times> int) list" where
  "cost_overrides equipment_data =
     concat (map (\<lambda>(k, data). case entry_cost data of None \<Rightarrow> [] | Some c \<Rightarrow> [(k, c)])
       equipment_data)"

text \<open>
  The annotation \<open>expansion_cost_override\<close>: the first \<open>When\<close> clause for the
  equipment's id, by default the equipment's own \<open>cost_cast_int\<close>.
\<close>

definition expansion_cost_override :: "(ident \<times> int) list \<Rightarrow> ContentEquipment \<Rightarrow> int" where
  "expansion_cost_override overrides e =
     (if overrides \<noteq> []
      then (case map_of overrides (eq_id e) of Some c \<Rightarrow> c | None \<Rightarrow> cost_cast_int e)
      else cost_cast_int e)"

definition get_expansion_equipment ::
  "Content_db \<Rightarrow> ExpansionRuleInputs \<Rightarrow> error + (ContentEquipment \<times> int) list" where
  "get_expansion_equipment db inp =
     (case get_applicable_expansions db inp of
        Inl err \<Rightarrow> Inl err
      | Inr expansions \<Rightarrow>
          (let equipment_data = foldl (\<lambda>d it. add_item it d) [] (loop_items db expansions);
               equipment_ids = map fst equipment_data;
               equipment = filter (\<lambda>e. eq_id e \<in> set equipment_ids) (equipment_objects db)
           in Inr (map (\<lambda>e. (e, expansion_cost_override (cost_overrides equipment_data) e))
                     equipment)))"

text \<open>
  What the loop leaves in \<open>equipment_data\<close> for one equipment id, read off the items
  in loop order: the base-level items (no weapon profile) of the equipment, and the cost
  of the last of them.
\<close>

definition base_items ::
  "ContentEquipmentListExpansionItem list \<Rightarrow> ident \<Rightarrow> ContentEquipmentListExpansionItem list" where
  "base_items its k = filter (\<lambda>it. item_equipment it = k \<and> weapon_profile_id it = None) its"

definition last_base_cost :: "ContentEquipmentListExpansionItem list \<Rightarrow> ident \<Rightarrow> int option" where
  "last_base_cost its k =
     (if base_items its k = [] then None else item_cost (last (base_items its k)))"

definition cost_of :: "equipment_data \<Rightarrow> ident \<Rightarrow> int option" where
  "cost_of d k = (case map_of d k of None \<Rightarrow> None | Some en \<Rightarrow> entry_cost en)"

text \<open>A call without extra keyword filters.\<close>

definition no_kwargs :: "ContentEquipmentListExpansionItem \<Rightarrow> bool" where
  "no_kwargs it = True"

section \<open>Combined equipment lists of a fighter and its legacy\<close>

text \<open>
  Modelled from the spec: \<open>ListFighter.equipment_list_fighters\<close> is defined in
  \<open>gyrinx/core/models/list.py\<close>, which is not among the sources at hand (only its test
  is). The spec: the legacy fighter then the fighter's own content fighter when a legacy
  is present, else the fighter's own content fighter alone.
\<close>

definition equipment_list_fighters :: "ListFighter \<Rightarrow> ident list" where
  "equipment_list_fighters f =
     (case legacy_content_fighter f of
        Some legacy \<Rightarrow> [legacy, content_fighter f]
      | None \<Rightarrow> [content_fighter f])"

record ContentFighterEquipmentListItem =
  eli_fighter :: ident
  eli_equipment :: ident
  eli_weapon_profile :: "ident option"
  eli_cost :: int

text \<open>
  The query of the test: the entries of any fighter of \<open>equipment_list_fighters\<close> for
  one equipment and weapon profile.
\<close>

definition overrides ::
  "ContentFighterEquipmentListItem list \<Rightarrow> ListFighter \<Rightarrow> ident \<Rightarrow> ident option
     \<Rightarrow> ContentFighterEquipmentListItem list" where
  "overrides table f equipment weapon_profile =
     filter (\<lambda>x. eli_fighter x \<in> set (equipment_list_fighters f)
                 \<and> eli_equipment x = equipment \<and> eli_weapon_profile x = weapon_profile) table"

text \<open>
  Modelled from the spec: \<open>resolve_cost\<close> is not among the sources at hand. The spec:
  query the entries across all \<open>equipment_list_fighters\<close> by equipment and weapon
  profile; an entry of the legacy source takes precedence over one of the base source;
  without a legacy only the base source's entry applies; with no entry there is no cost.
\<close>

definition resolve_cost ::
  "ContentFighterEquipmentListItem list \<Rightarrow> ListFighter \<Rightarrow> ident \<Rightarrow> ident option \<Rightarrow> int option"
  where
  "resolve_cost table f equipment weapon_profile =
     (let found = overrides table f equipment weapon_profile;
          legacy_override =
            (case legacy_content_fighter f of
               None \<Rightarrow> []
             | Some legacy \<Rightarrow> filter (\<lambda>x. eli_fighter x = legacy) found)
      in case legacy_override of
           x # xs \<Rightarrow> Some (eli_cost x)
         | [] \<Rightarrow> (case found of x # xs \<Rightarrow> Some (eli_cost x) | [] \<Rightarrow> None))"

section \<open>Concrete catalogues\<close>

text \<open>
  A gang with house 1, an active value 11 of attribute 7, an archived value 12 of
  attribute 7 and an active value 21 of attribute 8; no fighter.
\<close>

definition gang :: ListRow where
  "gang = \<lparr>content_house = 1,
           assignments =
             [\<lparr>attribute_value = \<lparr>av_id = 11, av_attribute = 7\<rparr>, archived = False\<rparr>,
              \<lparr>attribute_value = \<lparr>av_id = 12, av_attribute = 7\<rparr>, archived = True\<rparr>,
              \<lparr>attribute_value = \<lparr>av_id = 21, av_attribute = 8\<rparr>, archived = False\<rparr>]\<rparr>"

definition gang_inputs :: ExpansionRuleInputs where
  "gang_inputs = \<lparr>inp_list = Some gang, inp_fighter = None\<rparr>"

text \<open>The same gang with a fighter whose \<open>get_category\<close> returns \<open>None\<close>.\<close>

definition uncategorised_inputs :: ExpansionRuleInputs where
  "uncategorised_inputs =
     \<lparr>inp_list = Some gang,
      inp_fighter = Some \<lparr>content_fighter = 1, legacy_content_fighter = None,
                           get_category = None\<rparr>\<rparr>"

text \<open>A gang with three active values 11, 14 and 15 of attribute 7.\<close>

definition gang3 :: ListRow where
  "gang3 = \<lparr>content_house = 1,
            assignments =
              [\<lparr>attribute_value = \<lparr>av_id = 11, av_attribute = 7\<rparr>, archived = False\<rparr>,
               \<lparr>attribute_value = \<lparr>av_id = 14, av_attribute = 7\<rparr>, archived = False\<rparr>,
               \<lparr>attribute_value = \<lparr>av_id = 15, av_attribute = 7\<rparr>, archived = False\<rparr>]\<rparr>"

definition leader :: ListFighter where
  "leader = \<lparr>content_fighter = 1, legacy_content_fighter = None,
             get_category = Some ''LEADER''\<rparr>"

text \<open>
  A catalogue with a rule "attribute 7 is set, any value" (1) and a rule "house 1" (2);
  an expansion with the first rule, one with the second, and one with no rule.
\<close>

definition any_value_expansion :: ContentEquipmentListExpansion where
  "any_value_expansion = \<lparr>exp_id = 100, exp_name = ''Any alignment'', exp_rules = [1]\<rparr>"

definition house_expansion :: ContentEquipmentListExpansion where
  "house_expansion = \<lparr>exp_id = 101, exp_name = ''House'', exp_rules = [2]\<rparr>"

definition empty_expansion :: ContentEquipmentListExpansion where
  "empty_expansion = \<lparr>exp_id = 102, exp_name = ''No rules'', exp_rules = []\<rparr>"

definition catalog :: Content_db where
  "catalog =
     \<lparr>rule_objects = [\<lparr>rule_id = 1, rule_kind = ByAttribute 7 []\<rparr>,
                      \<lparr>rule_id = 2, rule_kind = ByHouse 1\<rparr>],
      expansion_objects = [any_value_expansion, house_expansion, empty_expansion],
      item_objects =
        [\<lparr>item_expansion = 100, item_equipment = 5, item_weapon_profile = None,
          item_cost = Some 10\<rparr>,
         \<lparr>item_expansion = 101, item_equipment = 5, item_weapon_profile = None,
          item_cost = Some 20\<rparr>],
      equipment_objects = [\<lparr>eq_id = 5, cost_cast_int = 50\<rparr>]\<rparr>"

text \<open>
  A catalogue with two expansions on the rule "house 1". The first gives equipment 5 at
  10; the second lists equipment 5 with no cost, a weapon profile of equipment 6 at 3
  and equipment 7 at 15.
\<close>

definition first_expansion :: ContentEquipmentListExpansion where
  "first_expansion = \<lparr>exp_id = 100, exp_name = ''A'', exp_rules = [2]\<rparr>"

definition second_expansion :: ContentEquipmentListExpansion where
  "second_expansion = \<lparr>exp_id = 101, exp_name = ''B'', exp_rules = [2]\<rparr>"

definition cost_catalog :: Content_db where
  "cost_catalog =
     \<lparr>rule_objects = [\<lparr>rule_id = 2, rule_kind = ByHouse 1\<rparr>],
      expansion_objects = [first_expansion, second_expansion],
      item_objects =
        [\<lparr>item_expansion = 100, item_equipment = 5, item_weapon_profile = None,
          item_cost = Some 10\<rparr>,
         \<lparr>item_expansion = 101, item_equipment = 5, item_weapon_profile = None,
          item_cost = None\<rparr>,
         \<lparr>item_expansion = 101, item_equipment = 6,
          item_weapon_profile = Some \<lparr>wp_id = 60, wp_equipment = 6\<rparr>, item_cost = Some 3\<rparr>,
         \<lparr>item_expansion = 101, item_equipment = 7, item_weapon_profile = None,
          item_cost = Some 15\<rparr>],
      equipment_objects =
        [\<lparr>eq_id = 5, cost_cast_int = 50\<rparr>, \<lparr>eq_id = 6, cost_cast_int = 70\<rparr>,
         \<lparr>eq_id = 7, cost_cast_int = 80\<rparr>]\<rparr>"

text \<open>
  The scenario of \<open>test_combined_equipment_lists_legacy_and_base\<close>: the hunt leader is
  content fighter 1, the legacy champion content fighter 2; equipment 10 is the
  non-sanctioned psyker, 11 the sanctioned psyker, 12 the legacy gear.
\<close>

definition hunt_leader_with_legacy :: ListFighter where
  "hunt_leader_with_legacy =
     \<lparr>content_fighter = 1, legacy_content_fighter = Some 2, get_category = Some ''LEADER''\<rparr>"

definition equipment_list_items :: "ContentFighterEquipmentListItem list" where
  "equipment_list_items =
     [\<lparr>eli_fighter = 1, eli_equipment = 10, eli_weapon_profile = None, eli_cost = 30\<rparr>,
      \<lparr>eli_fighter = 1, eli_equipment = 11, eli_weapon_profile = None, eli_cost = 35\<rparr>,
      \<lparr>eli_fighter = 2, eli_equipment = 12, eli_weapon_profile = None, eli_cost = 45\<rparr>,
      \<lparr>eli_fighter = 2, eli_equipment = 10, eli_weapon_profile = None, eli_cost = 25\<rparr>]"

section \<open>Rule matching: theorems\<close>

lemma list_values_empty_iff:
  "list_values l a = [] \<longleftrightarrow>
     \<not> (\<exists>x \<in> set (assignments l). \<not> archived x \<and> av_attribute (attribute_value x) = a)"
  by (auto simp: list_values_def filter_empty_conv)

lemma list_values_ex_iff:
  "list_ex P (list_values l a) \<longleftrightarrow>
     (\<exists>x \<in> set (assignments l). \<not> archived x \<and> av_attribute (attribute_value x) = a
        \<and> P (attribute_value x))"
  by (auto simp: list_values_def list_ex_iff)

text \<open>
  C3. With the list present, a rule by attribute matches exactly when the list has an
  assignment that is not archived for the rule's attribute, and the rule's value set is
  empty or one of those active values is in it. With no active value for the attribute
  the result is \<open>False\<close> whatever the value set.
\<close>

theorem attribute_rule_match:
  assumes "inp_list inp = Some l"
  shows "match (ByAttribute a vals) inp =
           Inr ((\<exists>x \<in> set (assignments l). \<not> archived x \<and> av_attribute (attribute_value x) = a)
                \<and> (vals = [] \<or>
                    (\<exists>x \<in> set (assignments l). \<not> archived x
                        \<and> av_attribute (attribute_value x) = a
                        \<and> av_id (attribute_value x) \<in> set vals)))
         \<and> (\<not> (\<exists>x \<in> set (assignments l). \<not> archived x \<and> av_attribute (attribute_value x) = a)
              \<longrightarrow> match (ByAttribute a vals) inp = Inr False)"
  using assms by (simp add: list_values_empty_iff list_values_ex_iff)

theorem attribute_rule_match_witness:
  "inp_list gang_inputs = Some gang
   \<and> match (ByAttribute 7 [11, 13]) gang_inputs = Inr True
   \<and> match (ByAttribute 7 [12]) gang_inputs = Inr False
   \<and> match (ByAttribute 7 []) gang_inputs = Inr True
   \<and> match (ByAttribute 9 []) gang_inputs = Inr False"
proof -
  have h: "inp_list gang_inputs = Some gang"
    by (simp add: gang_inputs_def)
  show ?thesis
    using h attribute_rule_match [OF h, of 7 "[11, 13]"] attribute_rule_match [OF h, of 7 "[12]"]
      attribute_rule_match [OF h, of 7 "[]"] attribute_rule_match [OF h, of 9 "[]"]
    by (simp add: gang_def)
qed

text \<open>
  C10. With a non-empty value set, the rule matches as soon as one active value of the
  list for the rule's attribute is in the set, whatever the other active values are.
\<close>

theorem attribute_rule_any_of:
  assumes "inp_list inp = Some l" and "vals \<noteq> []"
    and "x \<in> set (assignments l)" and "\<not> archived x"
    and "av_attribute (attribute_value x) = a" and "av_id (attribute_value x) \<in> set vals"
  shows "match (ByAttribute a vals) inp = Inr True"
  using assms by (auto simp: list_values_empty_iff list_values_ex_iff)

theorem attribute_rule_any_of_witness:
  "match (ByAttribute 7 [14, 99]) \<lparr>inp_list = Some gang3, inp_fighter = None\<rparr> = Inr True"
  using attribute_rule_any_of [of "\<lparr>inp_list = Some gang3, inp_fighter = None\<rparr>" gang3 "[14, 99]"
      "\<lparr>attribute_value = \<lparr>av_id = 14, av_attribute = 7\<rparr>, archived = False\<rparr>" 7]
  by (simp add: gang3_def)

text \<open>
  C4. A rule by fighter category never raises: it is \<open>False\<close> without a fighter,
  \<open>False\<close> when the fighter's category is \<open>None\<close> or empty, and otherwise tells
  whether the category is one of the rule's categories.
\<close>

theorem fighter_category_rule_match:
  "(inp_fighter inp = None \<longrightarrow> match (ByFighterCategory cats) inp = Inr False)
   \<and> (\<forall>f. inp_fighter inp = Some f \<and> (get_category f = None \<or> get_category f = Some [])
          \<longrightarrow> match (ByFighterCategory cats) inp = Inr False)
   \<and> (\<forall>f c. inp_fighter inp = Some f \<and> get_category f = Some c \<and> c \<noteq> []
          \<longrightarrow> match (ByFighterCategory cats) inp = Inr (c \<in> set cats))"
  by auto

theorem fighter_category_rule_match_witness:
  "match (ByFighterCategory [''LEADER'', ''CHAMPION'']) \<lparr>inp_list = None, inp_fighter = None\<rparr>
     = Inr False
   \<and> match (ByFighterCategory [''LEADER'', ''CHAMPION''])
        \<lparr>inp_list = None, inp_fighter = Some (leader\<lparr>get_category := None\<rparr>)\<rparr> = Inr False
   \<and> match (ByFighterCategory [''LEADER'', ''CHAMPION''])
        \<lparr>inp_list = None, inp_fighter = Some leader\<rparr> = Inr True
   \<and> match (ByFighterCategory [''CHAMPION''])
        \<lparr>inp_list = None, inp_fighter = Some leader\<rparr> = Inr False"
  using fighter_category_rule_match [of "\<lparr>inp_list = None, inp_fighter = None\<rparr>"
      "[''LEADER'', ''CHAMPION'']"]
    fighter_category_rule_match [of
      "\<lparr>inp_list = None, inp_fighter = Some (leader\<lparr>get_category := None\<rparr>)\<rparr>"
      "[''LEADER'', ''CHAMPION'']"]
    fighter_category_rule_match [of "\<lparr>inp_list = None, inp_fighter = Some leader\<rparr>"
      "[''LEADER'', ''CHAMPION'']"]
    fighter_category_rule_match [of "\<lparr>inp_list = None, inp_fighter = Some leader\<rparr>"
      "[''CHAMPION'']"]
  by (simp add: leader_def)

section \<open>Expansions: theorems\<close>

text \<open>With the list present no \<open>match\<close> raises, and the loop is the conjunction.\<close>

lemma match_list_present: "inp_list inp = Some l \<Longrightarrow> \<exists>b. match k inp = Inr b"
  by (cases k) (auto split: option.splits)

lemma applies_to_loop_conjunction:
  "inp_list inp = Some l \<Longrightarrow>
     applies_to_loop rs inp = Inr (\<forall>r \<in> set rs. match (rule_kind r) inp = Inr True)"
proof (induction rs)
  case Nil
  show ?case by simp
next
  case (Cons r rs)
  obtain b where "match (rule_kind r) inp = Inr b"
    using match_list_present [OF Cons.prems] by blast
  then show ?case using Cons by (cases b) auto
qed

text \<open>
  C1. \<open>applies_to\<close> on an expansion with no rule: the loop body never runs and the
  method returns \<open>True\<close>, while \<open>get_applicable_expansions\<close> leaves the same expansion
  out for the same inputs.
\<close>

theorem applies_to_without_rules:
  "rules_all catalog empty_expansion = []
   \<and> applies_to catalog empty_expansion gang_inputs = Inr True
   \<and> get_applicable_expansions catalog gang_inputs = Inr [house_expansion]"
  by code_simp

text \<open>
  C2. An expansion whose only rule is "attribute 7 is set, any value" on a gang with an
  active value of attribute 7: the rule matches, so the naive algorithm keeps the
  expansion; the candidate query joins the rule's (empty) value set with the list's
  active values, selects no such rule, and the expansion is left out.
\<close>

theorem two_phase_misses_any_value_rule:
  "match (ByAttribute 7 []) gang_inputs = Inr True
   \<and> naive_applicable_expansions catalog gang_inputs = [any_value_expansion, house_expansion]
   \<and> get_applicable_expansions catalog gang_inputs = Inr [house_expansion]"
  by code_simp

section \<open>Expansion items: theorems\<close>

text \<open>
  \<open>get_applicable_expansions\<close> returns whenever the list is present and a given
  fighter's category is not \<open>None\<close>.
\<close>

lemma get_applicable_expansions_returns:
  assumes "inp_list inp = Some l"
    and "inp_fighter inp = None \<or> (\<exists>f c. inp_fighter inp = Some f \<and> get_category f = Some c)"
  shows "\<exists>exps. get_applicable_expansions db inp = Inr exps"
  using assms by (auto simp: get_applicable_expansions_def)

text \<open>
  Whenever \<open>get_applicable_expansions\<close> returns for the inputs, the items returned (no
  extra filters) are exactly the items of the equipment and weapon profile whose
  expansion is among those it returns, and the early return changes nothing: the result
  is that of the query without it.
\<close>

lemma items_for_equipment_exact:
  assumes "get_applicable_expansions db inp = Inr exps"
  shows "get_applicable_expansion_items_for_equipment db inp equipment weapon_profile no_kwargs =
           Inr (filter (\<lambda>it. item_equipment it = equipment
                           \<and> weapon_profile_id it = weapon_profile
                           \<and> item_expansion it \<in> exp_id ` set exps)
                  (item_objects db))
         \<and> get_applicable_expansion_items_for_equipment db inp equipment weapon_profile no_kwargs =
             items_for_equipment_unguarded db inp equipment weapon_profile"
proof (cases "list_ex (\<lambda>it. item_equipment it = equipment \<and> weapon_profile_id it = weapon_profile)
                (item_objects db)")
  case True
  then show ?thesis
    using assms
    by (simp add: get_applicable_expansion_items_for_equipment_def
        items_for_equipment_unguarded_def no_kwargs_def)
next
  case False
  then have "filter (\<lambda>it. item_equipment it = equipment \<and> weapon_profile_id it = weapon_profile
                        \<and> item_expansion it \<in> exp_id ` set exps) (item_objects db) = []"
    by (auto simp: list_ex_iff filter_empty_conv)
  then show ?thesis
    using False assms
    by (simp add: get_applicable_expansion_items_for_equipment_def
        items_for_equipment_unguarded_def)
qed

text \<open>
  So with the list present and the category of a given fighter not \<open>None\<close>, the early
  return is a pure guard.
\<close>

lemma items_guard_pure_on_resolved_inputs:
  assumes "inp_list inp = Some l"
    and "inp_fighter inp = None \<or> (\<exists>f c. inp_fighter inp = Some f \<and> get_category f = Some c)"
  shows "get_applicable_expansion_items_for_equipment db inp equipment weapon_profile no_kwargs =
           items_for_equipment_unguarded db inp equipment weapon_profile"
proof -
  obtain exps where "get_applicable_expansions db inp = Inr exps"
    using get_applicable_expansions_returns [OF assms] by blast
  then show ?thesis
    using items_for_equipment_exact by blast
qed

lemma items_for_equipment_exact_example:
  "get_applicable_expansions catalog gang_inputs = Inr [house_expansion]
   \<and> get_applicable_expansion_items_for_equipment catalog gang_inputs 5 None no_kwargs =
       Inr [\<lparr>item_expansion = 101, item_equipment = 5, item_weapon_profile = None,
             item_cost = Some 20\<rparr>]
   \<and> get_applicable_expansion_items_for_equipment catalog gang_inputs 9 None no_kwargs = Inr []
   \<and> items_for_equipment_unguarded catalog gang_inputs 9 None = Inr []"
  by code_simp

text \<open>
  C5. The list is present and the fighter's \<open>get_category\<close> returns \<open>None\<close>, a fighter
  for which \<open>match\<close> returns \<open>False\<close>. \<open>get_applicable_expansions\<close> hands that
  \<open>None\<close> to the \<open>contains\<close> lookup and raises. For equipment 9, which no item has,
  the early return gives the empty result where the query it guards raises; for
  equipment 5, which items have, the same call raises. The early return changes the
  outcome.
\<close>

theorem items_guard_with_unresolved_category:
  "match (ByFighterCategory [''LEADER'']) uncategorised_inputs = Inr False
   \<and> get_applicable_expansions catalog uncategorised_inputs = Inl ValueError
   \<and> get_applicable_expansion_items_for_equipment catalog uncategorised_inputs 9 None no_kwargs
       = Inr []
   \<and> items_for_equipment_unguarded catalog uncategorised_inputs 9 None = Inl ValueError
   \<and> get_applicable_expansion_items_for_equipment catalog uncategorised_inputs 5 None no_kwargs
       = Inl ValueError"
  by code_simp

lemma match_not_validation: "match k inp \<noteq> Inl ValidationError"
  by (cases k) (auto split: option.splits)

lemma applies_to_loop_not_validation: "applies_to_loop rs inp \<noteq> Inl ValidationError"
proof (induction rs)
  case Nil
  show ?case by simp
next
  case (Cons r rs)
  then show ?case
    using match_not_validation [of "rule_kind r" inp] by (auto split: sum.splits)
qed

lemma get_applicable_expansions_not_validation:
  "get_applicable_expansions db inp \<noteq> Inl ValidationError"
  by (auto simp: get_applicable_expansions_def split: option.splits)

lemma items_for_equipment_not_validation:
  "get_applicable_expansion_items_for_equipment db inp equipment weapon_profile kw
     \<noteq> Inl ValidationError"
  using get_applicable_expansions_not_validation [of db inp]
  by (auto simp: get_applicable_expansion_items_for_equipment_def Let_def split: sum.splits)

lemma get_expansion_equipment_not_validation:
  "get_expansion_equipment db inp \<noteq> Inl ValidationError"
  using get_applicable_expansions_not_validation [of db inp]
  by (auto simp: get_expansion_equipment_def Let_def split: sum.splits)

text \<open>
  C9. \<open>clean\<close> raises the validation error exactly when the weapon profile is set and
  is a profile of another equipment, and raises nothing else; no rule evaluation
  (\<open>match\<close>, \<open>applies_to\<close>, \<open>get_applicable_expansions\<close>,
  \<open>get_applicable_expansion_items_for_equipment\<close>, \<open>get_expansion_equipment\<close>)
  raises it.
\<close>

theorem validation_error_only_in_clean:
  "(clean it = Inl ValidationError \<longleftrightarrow>
      (\<exists>wp. item_weapon_profile it = Some wp \<and> wp_equipment wp \<noteq> item_equipment it))
   \<and> (clean it = Inl ValidationError \<or> clean it = Inr ())
   \<and> match k inp \<noteq> Inl ValidationError
   \<and> applies_to db e inp \<noteq> Inl ValidationError
   \<and> get_applicable_expansions db inp \<noteq> Inl ValidationError
   \<and> get_applicable_expansion_items_for_equipment db inp equipment weapon_profile kw
        \<noteq> Inl ValidationError
   \<and> get_expansion_equipment db inp \<noteq> Inl ValidationError"
proof -
  have "clean it = Inl ValidationError \<longleftrightarrow>
      (\<exists>wp. item_weapon_profile it = Some wp \<and> wp_equipment wp \<noteq> item_equipment it)"
    by (auto simp: clean_def split: option.splits if_splits)
  moreover have "clean it = Inl ValidationError \<or> clean it = Inr ()"
    by (auto simp: clean_def split: option.splits)
  ultimately show ?thesis
    using match_not_validation applies_to_loop_not_validation
      get_applicable_expansions_not_validation items_for_equipment_not_validation
      get_expansion_equipment_not_validation
    by (simp add: applies_to_def)
qed

theorem validation_error_only_in_clean_witness:
  "clean \<lparr>item_expansion = 101, item_equipment = 5,
          item_weapon_profile = Some \<lparr>wp_id = 60, wp_equipment = 6\<rparr>, item_cost = Some 3\<rparr>
     = Inl ValidationError
   \<and> clean \<lparr>item_expansion = 101, item_equipment = 6,
          item_weapon_profile = Some \<lparr>wp_id = 60, wp_equipment = 6\<rparr>, item_cost = Some 3\<rparr>
     \<noteq> Inl ValidationError
   \<and> clean \<lparr>item_expansion = 101, item_equipment = 5, item_weapon_profile = None,
          item_cost = None\<rparr> \<noteq> Inl ValidationError"
  using validation_error_only_in_clean [of
      "\<lparr>item_expansion = 101, item_equipment = 5,
        item_weapon_profile = Some \<lparr>wp_id = 60, wp_equipment = 6\<rparr>, item_cost = Some 3\<rparr>"]
    validation_error_only_in_clean [of
      "\<lparr>item_expansion = 101, item_equipment = 6,
        item_weapon_profile = Some \<lparr>wp_id = 60, wp_equipment = 6\<rparr>, item_cost = Some 3\<rparr>"]
    validation_error_only_in_clean [of
      "\<lparr>item_expansion = 101, item_equipment = 5, item_weapon_profile = None,
        item_cost = None\<rparr>"]
  by simp


section \<open>Equipment aggregation: theorems\<close>

lemma cost_of_add_item:
  "cost_of (add_item it d) k =
     (if item_equipment it = k \<and> weapon_profile_id it = None then item_cost it else cost_of d k)"
  by (auto simp: cost_of_def add_item_def Let_def update_conv' split: option.splits)

lemma dom_add_item:
  "map_of (add_item it d) k = None \<longleftrightarrow> map_of d k = None \<and> item_equipment it \<noteq> k"
  by (auto simp: add_item_def Let_def update_conv' split: option.splits)

lemma distinct_add_item: "distinct (map fst d) \<Longrightarrow> distinct (map fst (add_item it d))"
  by (auto simp: add_item_def Let_def distinct_update split: option.splits)

lemma last_base_cost_snoc:
  "last_base_cost (its @ [it]) k =
     (if item_equipment it = k \<and> weapon_profile_id it = None then item_cost it
      else last_base_cost its k)"
  by (simp add: last_base_cost_def base_items_def)

text \<open>
  The invariant of the loop over the items: the dictionary has distinct keys, its keys
  are the equipment ids seen so far, and the base cost under a key is the cost of the
  last base-level item of that equipment.
\<close>

lemma foldl_add_item:
  "cost_of (foldl (\<lambda>d it. add_item it d) [] its) k = last_base_cost its k
   \<and> distinct (map fst (foldl (\<lambda>d it. add_item it d) [] its))
   \<and> (map_of (foldl (\<lambda>d it. add_item it d) [] its) k = None
        \<longleftrightarrow> k \<notin> item_equipment ` set its)"
proof (induction its rule: rev_induct)
  case Nil
  show ?case by (simp add: cost_of_def last_base_cost_def base_items_def)
next
  case (snoc it its)
  then show ?case
    by (auto simp: cost_of_add_item last_base_cost_snoc dom_add_item distinct_add_item)
qed

lemma map_of_cost_overrides:
  "distinct (map fst d) \<Longrightarrow> map_of (cost_overrides d) k = cost_of d k"
proof (induction d)
  case Nil
  show ?case by (simp add: cost_overrides_def cost_of_def)
next
  case (Cons p d)
  obtain k' en where p: "p = (k', en)" by (cases p)
  have nk: "map_of d k' = None"
    using Cons.prems p by (simp add: map_of_eq_None_iff)
  have ih: "map_of (cost_overrides d) k = cost_of d k"
    using Cons by simp
  have co: "cost_overrides (p # d) =
              (case entry_cost en of None \<Rightarrow> [] | Some c \<Rightarrow> [(k', c)]) @ cost_overrides d"
    by (simp add: cost_overrides_def p)
  show ?case
  proof (cases "k = k'")
    case True
    then show ?thesis
      using nk ih co p by (auto simp: cost_of_def split: option.splits)
  next
    case False
    then show ?thesis
      using ih co p by (auto simp: cost_of_def split: option.splits)
  qed
qed

lemma expansion_cost_override_eq:
  "expansion_cost_override ov e =
     (case map_of ov (eq_id e) of Some c \<Rightarrow> c | None \<Rightarrow> cost_cast_int e)"
  by (cases ov) (simp_all add: expansion_cost_override_def)

text \<open>
  C6, as stated, fails when a later applicable expansion lists the same equipment at
  base level with no cost: the first expansion supplies the cost 10 for equipment 5,
  the second overwrites it with \<open>None\<close>, and equipment 5 comes out at its own cost 50.
\<close>

theorem override_erased_by_later_item:
  "get_applicable_expansions cost_catalog gang_inputs = Inr [first_expansion, second_expansion]
   \<and> items_all cost_catalog first_expansion =
       [\<lparr>item_expansion = 100, item_equipment = 5, item_weapon_profile = None,
         item_cost = Some 10\<rparr>]
   \<and> get_expansion_equipment cost_catalog gang_inputs =
       Inr [(\<lparr>eq_id = 5, cost_cast_int = 50\<rparr>, 50),
            (\<lparr>eq_id = 6, cost_cast_int = 70\<rparr>, 70),
            (\<lparr>eq_id = 7, cost_cast_int = 80\<rparr>, 15)]"
  by code_simp

text \<open>
  C6, amended. Whenever \<open>get_expansion_equipment\<close> returns, each returned equipment
  is an equipment of some item of an applicable expansion, and its effective cost is the
  cost of the last base-level item of that equipment, in the order of the loop over the
  applicable expansions and their items, when that cost is not null, and the equipment's
  own cost otherwise; in particular an equipment with no base-level item keeps its own
  cost.
\<close>

theorem expansion_equipment_cost:
  assumes "get_applicable_expansions db inp = Inr exps"
    and "get_expansion_equipment db inp = Inr out"
    and "(e, c) \<in> set out"
  shows "c = (case last_base_cost (loop_items db exps) (eq_id e) of
                Some k \<Rightarrow> k | None \<Rightarrow> cost_cast_int e)
         \<and> (base_items (loop_items db exps) (eq_id e) = [] \<longrightarrow> c = cost_cast_int e)
         \<and> e \<in> set (equipment_objects db)
         \<and> eq_id e \<in> item_equipment ` set (loop_items db exps)"
proof -
  let ?d = "foldl (\<lambda>d it. add_item it d) [] (loop_items db exps)"
  note f = foldl_add_item [of "loop_items db exps" "eq_id e"]
  have out: "out = map (\<lambda>e. (e, expansion_cost_override (cost_overrides ?d) e))
                     (filter (\<lambda>e. eq_id e \<in> set (map fst ?d)) (equipment_objects db))"
    using assms(1,2) by (simp add: get_expansion_equipment_def Let_def)
  have c: "c = expansion_cost_override (cost_overrides ?d) e"
    and mem: "e \<in> set (equipment_objects db)" and key: "eq_id e \<in> fst ` set ?d"
    using assms(3) unfolding out by auto
  have "map_of (cost_overrides ?d) (eq_id e) = last_base_cost (loop_items db exps) (eq_id e)"
    using f map_of_cost_overrides [of ?d "eq_id e"] by simp
  then have c1: "c = (case last_base_cost (loop_items db exps) (eq_id e) of
                        Some k \<Rightarrow> k | None \<Rightarrow> cost_cast_int e)"
    using c by (simp add: expansion_cost_override_eq)
  have "map_of ?d (eq_id e) \<noteq> None"
    using key by (simp add: map_of_eq_None_iff)
  then have k1: "eq_id e \<in> item_equipment ` set (loop_items db exps)"
    using f by simp
  show ?thesis
    using c1 mem k1 by (simp add: last_base_cost_def)
qed

theorem expansion_equipment_cost_witness:
  "last_base_cost (loop_items cost_catalog [first_expansion, second_expansion]) 7 = Some 15
   \<and> base_items (loop_items cost_catalog [first_expansion, second_expansion]) 6 = []
   \<and> (15::int) = (case last_base_cost (loop_items cost_catalog [first_expansion, second_expansion])
                     (eq_id \<lparr>eq_id = 7, cost_cast_int = 80\<rparr>) of
                Some k \<Rightarrow> k | None \<Rightarrow> cost_cast_int \<lparr>eq_id = 7, cost_cast_int = 80\<rparr>)
   \<and> (70::int) = cost_cast_int \<lparr>eq_id = 6, cost_cast_int = 70\<rparr>"
proof -
  have h1: "get_applicable_expansions cost_catalog gang_inputs =
              Inr [first_expansion, second_expansion]"
    by code_simp
  have h2: "get_expansion_equipment cost_catalog gang_inputs =
              Inr [(\<lparr>eq_id = 5, cost_cast_int = 50\<rparr>, 50),
                   (\<lparr>eq_id = 6, cost_cast_int = 70\<rparr>, 70),
                   (\<lparr>eq_id = 7, cost_cast_int = 80\<rparr>, 15)]"
    by code_simp
  have m7: "(\<lparr>eq_id = 7, cost_cast_int = 80\<rparr>, 15) \<in>
              set [(\<lparr>eq_id = 5, cost_cast_int = 50\<rparr>, 50::int),
                   (\<lparr>eq_id = 6, cost_cast_int = 70\<rparr>, 70),
                   (\<lparr>eq_id = 7, cost_cast_int = 80\<rparr>, 15)]"
    by simp
  have m6: "(\<lparr>eq_id = 6, cost_cast_int = 70\<rparr>, 70) \<in>
              set [(\<lparr>eq_id = 5, cost_cast_int = 50\<rparr>, 50::int),
                   (\<lparr>eq_id = 6, cost_cast_int = 70\<rparr>, 70),
                   (\<lparr>eq_id = 7, cost_cast_int = 80\<rparr>, 15)]"
    by simp
  have l7: "last_base_cost (loop_items cost_catalog [first_expansion, second_expansion]) 7
              = Some 15"
    by code_simp
  have b6: "base_items (loop_items cost_catalog [first_expansion, second_expansion]) 6 = []"
    by code_simp
  show ?thesis
    using l7 b6 expansion_equipment_cost [OF h1 h2 m7] expansion_equipment_cost [OF h1 h2 m6]
    by simp
qed

section \<open>Combined equipment lists: theorems\<close>

text \<open>
  C7. \<open>equipment_list_fighters\<close> is the legacy fighter followed by the fighter's own
  content fighter when there is a legacy, and the own content fighter alone when there
  is none.
\<close>

theorem equipment_list_fighters_order:
  "(\<forall>legacy. legacy_content_fighter f = Some legacy
       \<longrightarrow> equipment_list_fighters f = [legacy, content_fighter f])
   \<and> (legacy_content_fighter f = None \<longrightarrow> equipment_list_fighters f = [content_fighter f])"
  by (simp add: equipment_list_fighters_def)

theorem equipment_list_fighters_order_witness:
  "equipment_list_fighters hunt_leader_with_legacy = [2, 1]
   \<and> length (equipment_list_fighters hunt_leader_with_legacy) = 2
   \<and> equipment_list_fighters leader = [1]"
  using equipment_list_fighters_order [of hunt_leader_with_legacy]
    equipment_list_fighters_order [of leader]
  by (simp add: hunt_leader_with_legacy_def leader_def)

lemma filter_hd_in:
  assumes "filter P xs = y # ys"
  shows "y \<in> set xs \<and> P y"
proof -
  have "y \<in> set (filter P xs)"
    using assms by simp
  then show ?thesis by simp
qed

text \<open>
  C8. For a fighter with a legacy: when the legacy source has an entry for the equipment
  and weapon profile, the resolved cost is the cost of an entry of the legacy source for
  that key, whether or not the base source has one; when only the base source has an
  entry, the resolved cost is the cost of an entry of the base source for that key.
\<close>

theorem resolve_cost_legacy_first:
  assumes "legacy_content_fighter f = Some legacy"
  shows "((\<exists>x \<in> set table. eli_fighter x = legacy \<and> eli_equipment x = equipment
              \<and> eli_weapon_profile x = weapon_profile)
          \<longrightarrow> (\<exists>x \<in> set table. eli_fighter x = legacy \<and> eli_equipment x = equipment
                 \<and> eli_weapon_profile x = weapon_profile
                 \<and> resolve_cost table f equipment weapon_profile = Some (eli_cost x)))
         \<and> (\<not> (\<exists>x \<in> set table. eli_fighter x = legacy \<and> eli_equipment x = equipment
                  \<and> eli_weapon_profile x = weapon_profile)
            \<and> (\<exists>x \<in> set table. eli_fighter x = content_fighter f \<and> eli_equipment x = equipment
                  \<and> eli_weapon_profile x = weapon_profile)
          \<longrightarrow> (\<exists>x \<in> set table. eli_fighter x = content_fighter f \<and> eli_equipment x = equipment
                 \<and> eli_weapon_profile x = weapon_profile
                 \<and> resolve_cost table f equipment weapon_profile = Some (eli_cost x)))"
proof -
  define key where
    "key = (\<lambda>x::ContentFighterEquipmentListItem. eli_equipment x = equipment \<and> eli_weapon_profile x = weapon_profile)"
  define found where "found = overrides table f equipment weapon_profile"
  define leg where "leg = filter (\<lambda>x. eli_fighter x = legacy) found"
  have found: "found = filter (\<lambda>x. (eli_fighter x = legacy \<or> eli_fighter x = content_fighter f)
                                  \<and> key x) table"
    using assms by (simp add: found_def key_def overrides_def equipment_list_fighters_def)
  have leg: "leg = filter (\<lambda>x. eli_fighter x = legacy \<and> key x) table"
    unfolding leg_def found by (auto intro: filter_cong)
  have rc: "resolve_cost table f equipment weapon_profile =
              (case leg of x # xs \<Rightarrow> Some (eli_cost x)
               | [] \<Rightarrow> (case found of x # xs \<Rightarrow> Some (eli_cost x) | [] \<Rightarrow> None))"
    using assms unfolding leg_def found_def by (simp add: resolve_cost_def Let_def)
  have first: "\<exists>x \<in> set table. eli_fighter x = legacy \<and> key x
                 \<and> resolve_cost table f equipment weapon_profile = Some (eli_cost x)"
    if "\<exists>x \<in> set table. eli_fighter x = legacy \<and> key x"
  proof -
    from that have "leg \<noteq> []"
      unfolding leg by (auto simp: filter_empty_conv)
    then obtain y ys where y: "leg = y # ys"
      by (cases leg) auto
    then have "y \<in> set table \<and> eli_fighter y = legacy \<and> key y"
      using filter_hd_in [of "\<lambda>x. eli_fighter x = legacy \<and> key x" table y ys] leg by simp
    moreover have "resolve_cost table f equipment weapon_profile = Some (eli_cost y)"
      by (simp add: rc y)
    ultimately show ?thesis by blast
  qed
  have second: "\<exists>x \<in> set table. eli_fighter x = content_fighter f \<and> key x
                 \<and> resolve_cost table f equipment weapon_profile = Some (eli_cost x)"
    if none: "\<not> (\<exists>x \<in> set table. eli_fighter x = legacy \<and> key x)"
      and some: "\<exists>x \<in> set table. eli_fighter x = content_fighter f \<and> key x"
  proof -
    from none have l0: "leg = []"
      unfolding leg by (auto simp: filter_empty_conv)
    from some have "found \<noteq> []"
      unfolding found by (auto simp: filter_empty_conv)
    then obtain y ys where y: "found = y # ys"
      by (cases found) auto
    then have "y \<in> set table \<and> (eli_fighter y = legacy \<or> eli_fighter y = content_fighter f)
                 \<and> key y"
      using filter_hd_in [of "\<lambda>x. (eli_fighter x = legacy \<or> eli_fighter x = content_fighter f)
                                  \<and> key x" table y ys] found
      by simp
    then have "y \<in> set table \<and> eli_fighter y = content_fighter f \<and> key y"
      using none by blast
    moreover have "resolve_cost table f equipment weapon_profile = Some (eli_cost y)"
      by (simp add: rc l0 y)
    ultimately show ?thesis by blast
  qed
  show ?thesis
    using first second unfolding key_def by blast
qed

theorem resolve_cost_legacy_first_witness:
  "legacy_content_fighter hunt_leader_with_legacy = Some 2
   \<and> resolve_cost equipment_list_items hunt_leader_with_legacy 10 None = Some 25
   \<and> resolve_cost equipment_list_items hunt_leader_with_legacy 11 None = Some 35
   \<and> resolve_cost equipment_list_items hunt_leader_with_legacy 12 None = Some 45"
proof -
  have h: "legacy_content_fighter hunt_leader_with_legacy = Some 2"
    by (simp add: hunt_leader_with_legacy_def)
  have c: "content_fighter hunt_leader_with_legacy = 1"
    by (simp add: hunt_leader_with_legacy_def)
  show ?thesis
    using h resolve_cost_legacy_first [OF h, of equipment_list_items 10 None]
      resolve_cost_legacy_first [OF h, of equipment_list_items 11 None]
      resolve_cost_legacy_first [OF h, of equipment_list_items 12 None]
    unfolding c by (simp add: equipment_list_items_def)
qed


end
